theory Spec2Isabelle
  imports Main
begin

unbundle bit_operations_syntax

section \<open>The TLS Pool adapter of cheroot (\<open>src/cheroot/ssl/tlspooladapter.py\<close>)\<close>

subsection \<open>Values, exceptions and the adapter object\<close>

text \<open>
  The identity attributes the module handles are Python values that are either a string
  or \<open>None\<close>. A WSGI environment is a \<open>dict\<close> from string keys to such values;
  two dicts are equal when they hold the same keys with the same values, so the
  dict is a map.
\<close>

datatype pyval = PyNone | PyStr string

type_synonym environ = "string \<rightharpoonup> pyval"

text \<open>
  Python truthiness of an identity value: \<open>None\<close> and the empty string are falsy,
  every other string is truthy. It is how "an identity is there and non-empty" is read.
\<close>

definition truthy :: "pyval \<Rightarrow> bool" where
  "truthy v = (case v of PyNone \<Rightarrow> False | PyStr s \<Rightarrow> s \<noteq> [])"

text \<open>
  The exceptions that leave the module: the interpreter's \<open>RecursionError\<close> (Python 2:
  \<open>RuntimeError\<close>, maximum recursion depth exceeded), and whatever \<open>starttls\<close> of the
  \<open>tlspool\<close> library raises, kept with its message.
\<close>

datatype error = RecursionError | StarttlsError string

text \<open>
  An adapter object has one attribute, \<open>server_name\<close>; the class stores nothing else.
\<close>

record TLSPoolAdapter =
  server_name :: pyval

subsection \<open>The \<open>tlspool\<close> library\<close>

text \<open>
  \<open>tlspool\<close> is an external library (\<open>import tlspool\<close>). The module uses three of its
  flag constants, its \<open>Connection\<close> class, the \<open>tlsdata\<close> attribute of a connection
  with the fields \<open>localid\<close> and \<open>remoteid\<close>, and the method \<open>starttls\<close>.
  The library is a parameter of the model: the values of the constants, the blank
  \<open>tlsdata\<close> of a new connection, and the behaviour of \<open>starttls\<close>, which is the
  exchange with the TLS Pool daemon. \<open>starttls\<close> either raises or returns the
  application-side socket; it may rewrite \<open>tlsdata\<close> in place, so a successful call
  yields the \<open>tlsdata\<close> of the handle as it stands afterwards.
\<close>

record tlsdata_t =
  localid :: pyval
  remoteid :: pyval

text \<open>
  A handle \<open>tlspool.Connection (extsock, service=..., flags=...)\<close> holds the socket and
  the keyword arguments it was made with, and its \<open>tlsdata\<close>.
\<close>

record 'sock Connection =
  cryptsk :: 'sock
  service :: string
  flags :: int
  tlsdata :: tlsdata_t

record ('sock, 'isock) tlspool =
  PIOF_STARTTLS_LOCALROLE_SERVER :: int
  PIOF_STARTTLS_REMOTEROLE_CLIENT :: int
  PIOF_STARTTLS_IGNORE_REMOTEID :: int
  new_tlsdata :: tlsdata_t
  starttls :: "'sock Connection \<Rightarrow> error + 'isock \<times> tlsdata_t"

subsection \<open>The state the methods run in\<close>

text \<open>
  A method receives \<open>self\<close> by reference and may talk to the TLS Pool. The state it runs
  in is the adapter object together with the list of handles on which \<open>starttls\<close> has
  been called so far, oldest first: every handshake request handed to the TLS Pool.
  Each method takes the state and returns its result with the state afterwards.
\<close>

record 'sock world =
  adapter :: TLSPoolAdapter
  submitted :: "'sock Connection list"

subsection \<open>\<open>__init__\<close>\<close>

text \<open>
  The class body defines \<open>__init__\<close> twice. The second \<^verbatim>\<open>def\<close> rebinds the name, so
  the first one is unreachable once the class exists:
  \<^verbatim>\<open>
  def __init__ (self, server_name):
      self.server_name = server_name

  def __init__ (self, server_name, *mooh):
      self.__init__ (server_name)
  \<close>
  The first definition, as the function it would have been:
\<close>

definition TLSPoolAdapter_init_shadowed :: "pyval \<Rightarrow> TLSPoolAdapter" where
  "TLSPoolAdapter_init_shadowed name = \<lparr>server_name = name\<rparr>"

text \<open>
  The second definition is the constructor every call runs. \<open>self.__init__\<close> in its
  body is looked up on the class and finds this same function, which is entered again
  with \<open>mooh = ()\<close>. The interpreter allows a bounded number of nested calls
  (\<open>sys.getrecursionlimit ()\<close>); the first argument is the number of frames still
  available, and a call with none left raises. No branch of the body assigns an
  attribute, so no branch returns an object.
\<close>

fun TLSPoolAdapter_init :: "nat \<Rightarrow> pyval \<Rightarrow> pyval list \<Rightarrow> error + TLSPoolAdapter" where
  "TLSPoolAdapter_init 0 name mooh = Inl RecursionError"
| "TLSPoolAdapter_init (Suc frames) name mooh = TLSPoolAdapter_init frames name []"

subsection \<open>\<open>bind\<close>\<close>

text \<open>
  Modelled from the spec: the base class \<open>Adapter\<close> (\<open>from . import Adapter\<close>, the
  package's \<open>__init__.py\<close>) is not among the sources, and \<open>bind\<close> of the adapter only
  calls the \<open>bind\<close> it inherits. The spec's contract for binding is
  \<open>bind(listeningSocketDescriptor) -> listeningSocketDescriptor\<close>, a pure pass-through:
  no handshake, no connection to the authority, no metadata.
\<close>

definition Adapter_bind :: "'sock \<Rightarrow> 'sock world \<Rightarrow> 'sock \<times> 'sock world" where
  "Adapter_bind sock w = (sock, w)"

text \<open>
  \<^verbatim>\<open>
  def bind (self, sock):
      return super (TLSPoolAdapter,self).bind (sock)
  \<close>
\<close>

definition TLSPoolAdapter_bind :: "'sock \<Rightarrow> 'sock world \<Rightarrow> 'sock \<times> 'sock world" where
  "TLSPoolAdapter_bind sock w = Adapter_bind sock w"

subsection \<open>\<open>wrap\<close>\<close>

text \<open>
  \<^verbatim>\<open>
  def wrap (self, extsock):
      fl = ( tlspool.PIOF_STARTTLS_LOCALROLE_SERVER |
             tlspool.PIOF_STARTTLS_REMOTEROLE_CLIENT |
             tlspool.PIOF_STARTTLS_IGNORE_REMOTEID )
      hdl = tlspool.Connection (extsock, service='http', flags=fl)
      hdl.tlsdata.localid = self.server_name
      intsock = hdl.starttls ()
      env = {
              'wsgi.url_scheme': 'https',
              'HTTPS': 'on',
              'LOCAL_USER': hdl.tlsdata.localid,
              'REMOTE_USER': hdl.tlsdata.remoteid,
      }
      return intsock, env
  \<close>
  In the file the lines from \<open>fl = (\<close> to \<open>intsock = hdl.starttls ()\<close> are
  indented with a tab and the others with eight spaces. Under Python 2, where a tab
  advances to the next multiple of eight, all of them are statements of the one body, in
  this order; that is the reading modelled here.
  The first three statements build the handle on which \<open>starttls\<close> is called.
\<close>

definition wrap_hdl :: "('sock, 'isock) tlspool \<Rightarrow> TLSPoolAdapter \<Rightarrow> 'sock \<Rightarrow> 'sock Connection" where
  "wrap_hdl lib self extsock =
     (let fl = PIOF_STARTTLS_LOCALROLE_SERVER lib OR
               PIOF_STARTTLS_REMOTEROLE_CLIENT lib OR
               PIOF_STARTTLS_IGNORE_REMOTEID lib;
          hdl = \<lparr>cryptsk = extsock, service = ''http'', flags = fl,
                 tlsdata = new_tlsdata lib\<rparr>
      in hdl\<lparr>tlsdata := (tlsdata hdl)\<lparr>localid := server_name self\<rparr>\<rparr>)"

text \<open>
  \<open>starttls\<close> is then called on that handle, which is one more request handed to the
  TLS Pool. There is no \<^verbatim>\<open>try\<close> around it: an exception it raises leaves \<open>wrap\<close> as
  it is. Otherwise the dict is built from the \<open>tlsdata\<close> of the handle as it stands
  after the call.
\<close>

definition TLSPoolAdapter_wrap ::
  "('sock, 'isock) tlspool \<Rightarrow> 'sock \<Rightarrow> 'sock world \<Rightarrow> (error + 'isock \<times> environ) \<times> 'sock world" where
  "TLSPoolAdapter_wrap lib extsock w =
     (let hdl = wrap_hdl lib (adapter w) extsock;
          w' = w\<lparr>submitted := submitted w @ [hdl]\<rparr>
      in case starttls lib hdl of
           Inl e \<Rightarrow> (Inl e, w')
         | Inr (intsock, td) \<Rightarrow>
             (Inr (intsock,
                   [''wsgi.url_scheme'' \<mapsto> PyStr ''https'',
                    ''HTTPS'' \<mapsto> PyStr ''on'',
                    ''LOCAL_USER'' \<mapsto> localid td,
                    ''REMOTE_USER'' \<mapsto> remoteid td]), w'))"

subsection \<open>\<open>makefile\<close>\<close>

text \<open>
  \<^verbatim>\<open>
  def makefile(self, sock, mode='r', bufsize=DEFAULT_BUFFER_SIZE):
      cls = StreamReader if 'r' in mode else StreamWriter
      return cls(sock, mode, bufsize)
  \<close>
  \<open>StreamReader\<close> and \<open>StreamWriter\<close> are imported from \<open>..makefile\<close>, which is not
  among the sources; the two classes are parameters of the model. The body sees the three
  arguments after the defaults have been filled in by the call. \<open>mode\<close> is a string
  and \<open>'r'\<close> has one character, so \<open>'r' in mode\<close> asks whether that character occurs.
\<close>

definition TLSPoolAdapter_makefile ::
  "('sock \<Rightarrow> string \<Rightarrow> int \<Rightarrow> 'file) \<Rightarrow> ('sock \<Rightarrow> string \<Rightarrow> int \<Rightarrow> 'file) \<Rightarrow>
   'sock \<Rightarrow> string \<Rightarrow> int \<Rightarrow> 'sock world \<Rightarrow> 'file \<times> 'sock world" where
  "TLSPoolAdapter_makefile reader writer sock mode bufsize w =
     (let cls = (if CHR ''r'' \<in> set mode then reader else writer)
      in (cls sock mode bufsize, w))"

text \<open>
  File objects that remember the class and the arguments they were made with, for
  running \<open>makefile\<close> on concrete arguments.
\<close>

datatype 'sock stream = StreamReader 'sock string int | StreamWriter 'sock string int

subsection \<open>\<open>get_environ\<close>\<close>

text \<open>
  \<^verbatim>\<open>
  def get_environ (self, sock):
      return {
              'wsgi.url_scheme': 'https',
              'HTTPS': 'on',
      }
  \<close>
\<close>

definition TLSPoolAdapter_get_environ :: "'sock \<Rightarrow> 'sock world \<Rightarrow> environ \<times> 'sock world" where
  "TLSPoolAdapter_get_environ sock w =
     ([''wsgi.url_scheme'' \<mapsto> PyStr ''https'', ''HTTPS'' \<mapsto> PyStr ''on''], w)"

subsection \<open>Sequences of method calls\<close>

text \<open>
  The serving framework calls the four methods in any order and any number of times on
  one adapter. A call is a method with its arguments; running a list of calls threads the
  state through them and drops the results. An exception raised by \<open>wrap\<close> ends that
  call only: the framework catches it and goes on with the next connection.
\<close>

datatype 'sock call =
    Bind 'sock
  | Wrap 'sock
  | Makefile 'sock string int
  | Get_environ 'sock

fun invoke ::
  "('sock, 'isock) tlspool \<Rightarrow> ('sock \<Rightarrow> string \<Rightarrow> int \<Rightarrow> 'file) \<Rightarrow> ('sock \<Rightarrow> string \<Rightarrow> int \<Rightarrow> 'file) \<Rightarrow>
   'sock world \<Rightarrow> 'sock call \<Rightarrow> 'sock world" where
  "invoke lib reader writer w (Bind sock) = snd (TLSPoolAdapter_bind sock w)"
| "invoke lib reader writer w (Wrap extsock) = snd (TLSPoolAdapter_wrap lib extsock w)"
| "invoke lib reader writer w (Makefile sock mode bufsize) =
     snd (TLSPoolAdapter_makefile reader writer sock mode bufsize w)"
| "invoke lib reader writer w (Get_environ sock) = snd (TLSPoolAdapter_get_environ sock w)"

definition run ::
  "('sock, 'isock) tlspool \<Rightarrow> ('sock \<Rightarrow> string \<Rightarrow> int \<Rightarrow> 'file) \<Rightarrow> ('sock \<Rightarrow> string \<Rightarrow> int \<Rightarrow> 'file) \<Rightarrow>
   'sock call list \<Rightarrow> 'sock world \<Rightarrow> 'sock world" where
  "run lib reader writer calls w = foldl (invoke lib reader writer) w calls"

subsection \<open>Concrete libraries and states\<close>

text \<open>
  Two instances of the library over sockets numbered by their descriptors, with sample
  values for the three flag constants (distinct bits). The first grants every handshake:
  it returns a fresh descriptor and leaves \<open>tlsdata\<close> as the caller set it, so the local
  identity is the one requested and the remote identity stays blank, which is a peer
  that presented none. The second refuses every handshake.
\<close>

definition granting_pool :: "(nat, nat) tlspool" where
  "granting_pool =
     \<lparr>PIOF_STARTTLS_LOCALROLE_SERVER = 2,
      PIOF_STARTTLS_REMOTEROLE_CLIENT = 4,
      PIOF_STARTTLS_IGNORE_REMOTEID = 4096,
      new_tlsdata = \<lparr>localid = PyStr [], remoteid = PyStr []\<rparr>,
      starttls = (\<lambda>hdl. Inr (Suc (cryptsk hdl), tlsdata hdl))\<rparr>"

definition refusing_pool :: "(nat, nat) tlspool" where
  "refusing_pool = granting_pool\<lparr>starttls := (\<lambda>hdl. Inl (StarttlsError ''handshake refused''))\<rparr>"

text \<open>
  The state of the module's own example, \<open>TLSPoolAdapter ('tlspool.arpa2.lab')\<close> with
  no handshake requested yet, and the state of an adapter whose server name is the empty
  string.
\<close>

definition lab_world :: "nat world" where
  "lab_world = \<lparr>adapter = \<lparr>server_name = PyStr ''tlspool.arpa2.lab''\<rparr>, submitted = []\<rparr>"

definition nameless_world :: "nat world" where
  "nameless_world = \<lparr>adapter = \<lparr>server_name = PyStr []\<rparr>, submitted = []\<rparr>"

text \<open>
  A third library instance grants every handshake too, but the TLS Pool picks the local
  identity itself and reports an authenticated peer.
\<close>

definition substituting_pool :: "(nat, nat) tlspool" where
  "substituting_pool =
     granting_pool\<lparr>starttls := (\<lambda>hdl. Inr (Suc (cryptsk hdl),
        \<lparr>localid = PyStr ''www.arpa2.lab'', remoteid = PyStr ''alice@example.com''\<rparr>))\<rparr>"

section \<open>Properties\<close>

subsection \<open>What one call of \<open>wrap\<close> does\<close>

lemma or3_and:
  "(a OR b OR c) AND a = (a::int)"
  "(a OR b OR c) AND b = (b::int)"
  "(a OR b OR c) AND c = (c::int)"
  by (auto simp add: bit_eq_iff bit_and_iff bit_or_iff)

lemma wrap_granted:
  "starttls lib (wrap_hdl lib (adapter w) extsock) = Inr (intsock, td) \<Longrightarrow>
   fst (TLSPoolAdapter_wrap lib extsock w) =
     Inr (intsock, [''wsgi.url_scheme'' \<mapsto> PyStr ''https'', ''HTTPS'' \<mapsto> PyStr ''on'',
                    ''LOCAL_USER'' \<mapsto> localid td, ''REMOTE_USER'' \<mapsto> remoteid td])"
  by (simp add: TLSPoolAdapter_wrap_def Let_def)

lemma wrap_raised:
  "starttls lib (wrap_hdl lib (adapter w) extsock) = Inl e \<Longrightarrow>
   fst (TLSPoolAdapter_wrap lib extsock w) = Inl e"
  by (simp add: TLSPoolAdapter_wrap_def Let_def)

text \<open>A result of \<open>wrap\<close> comes from a \<open>starttls\<close> that returned, and the dict is built from it.\<close>

lemma wrap_InrD:
  assumes "fst (TLSPoolAdapter_wrap lib extsock w) = Inr (intsock, env)"
  shows "\<exists>td. starttls lib (wrap_hdl lib (adapter w) extsock) = Inr (intsock, td) \<and>
     env = [''wsgi.url_scheme'' \<mapsto> PyStr ''https'', ''HTTPS'' \<mapsto> PyStr ''on'',
            ''LOCAL_USER'' \<mapsto> localid td, ''REMOTE_USER'' \<mapsto> remoteid td]"
proof (cases "starttls lib (wrap_hdl lib (adapter w) extsock)")
  case (Inl e)
  with assms wrap_raised[OF Inl] show ?thesis by simp
next
  case (Inr r)
  obtain s td where r: "r = (s, td)" by (cases r)
  from assms wrap_granted[of lib w extsock s td] Inr r show ?thesis by auto
qed

lemma wrap_snd:
  "snd (TLSPoolAdapter_wrap lib extsock w) =
     w\<lparr>submitted := submitted w @ [wrap_hdl lib (adapter w) extsock]\<rparr>"
  by (simp add: TLSPoolAdapter_wrap_def Let_def split: sum.split prod.split)

text \<open>The handles of the sample runs, and what the sample libraries answer.\<close>

lemma lab_hdl:
  "wrap_hdl granting_pool (adapter lab_world) extsock =
     \<lparr>cryptsk = extsock, service = ''http'', flags = 4102,
      tlsdata = \<lparr>localid = PyStr ''tlspool.arpa2.lab'', remoteid = PyStr []\<rparr>\<rparr>"
  by (simp add: wrap_hdl_def granting_pool_def lab_world_def Let_def)

lemma granting_lab:
  "starttls granting_pool (wrap_hdl granting_pool (adapter lab_world) extsock) =
     Inr (Suc extsock, \<lparr>localid = PyStr ''tlspool.arpa2.lab'', remoteid = PyStr []\<rparr>)"
  by (simp add: lab_hdl) (simp add: granting_pool_def)

lemma granting_nameless:
  "starttls granting_pool (wrap_hdl granting_pool (adapter nameless_world) extsock) =
     Inr (Suc extsock, \<lparr>localid = PyStr [], remoteid = PyStr []\<rparr>)"
  by (simp add: wrap_hdl_def granting_pool_def nameless_world_def Let_def)

lemma substituting_lab:
  "starttls substituting_pool (wrap_hdl substituting_pool (adapter lab_world) extsock) =
     Inr (Suc extsock, \<lparr>localid = PyStr ''www.arpa2.lab'', remoteid = PyStr ''alice@example.com''\<rparr>)"
  by (simp add: substituting_pool_def wrap_hdl_def Let_def)

lemma refusing_lab:
  "starttls refusing_pool (wrap_hdl refusing_pool (adapter lab_world) extsock) =
     Inl (StarttlsError ''handshake refused'')"
  by (simp add: refusing_pool_def)

subsection \<open>The remote identity in the mapping\<close>

text \<open>
  C1, as stated, fails. The claim: after a successful handshake the mapping has the
  remote-identity key if and only if \<open>IgnoreRemoteIdentity\<close> was false or the peer
  supplied an identity, and the canonical request against an authority that grants the
  handshake with no remote identity yields a mapping without that key. The run below is
  that scenario: the adapter of \<open>tlspool.arpa2.lab\<close> wraps socket 5, the request carries
  the \<open>IGNORE_REMOTEID\<close> bit, the TLS Pool grants the handshake and leaves the remote
  identity blank, which is not an identity supplied, and yet \<open>wrap\<close> returns socket 6
  with a mapping that has the key \<open>REMOTE_USER\<close>, bound to that blank value.
\<close>

theorem wrap_remote_user_key_without_peer_identity:
  "flags (wrap_hdl granting_pool (adapter lab_world) 5) AND
     PIOF_STARTTLS_IGNORE_REMOTEID granting_pool = PIOF_STARTTLS_IGNORE_REMOTEID granting_pool
   \<and> starttls granting_pool (wrap_hdl granting_pool (adapter lab_world) 5) =
       Inr (6, \<lparr>localid = PyStr ''tlspool.arpa2.lab'', remoteid = PyStr []\<rparr>)
   \<and> \<not> truthy (PyStr [])
   \<and> (case fst (TLSPoolAdapter_wrap granting_pool 5 lab_world) of
         Inl e \<Rightarrow> False
       | Inr (intsock, env) \<Rightarrow>
           intsock = 6 \<and> ''REMOTE_USER'' \<in> dom env \<and> env ''REMOTE_USER'' = Some (PyStr []))"
proof -
  have "flags (wrap_hdl granting_pool (adapter lab_world) 5) AND
     PIOF_STARTTLS_IGNORE_REMOTEID granting_pool = PIOF_STARTTLS_IGNORE_REMOTEID granting_pool"
    by (simp add: wrap_hdl_def Let_def or3_and)
  moreover have g: "starttls granting_pool (wrap_hdl granting_pool (adapter lab_world) 5) =
       Inr (6, \<lparr>localid = PyStr ''tlspool.arpa2.lab'', remoteid = PyStr []\<rparr>)"
    using granting_lab[of 5] by simp
  moreover have "\<not> truthy (PyStr [])"
    by (simp add: truthy_def)
  ultimately show ?thesis
    using wrap_granted[OF g] by simp
qed

text \<open>
  C1, amended. After every successful call of \<open>wrap\<close> the mapping contains the key
  \<open>REMOTE_USER\<close>, whatever the flags were and whether or not the peer supplied an
  identity; its value is the \<open>remoteid\<close> the handle holds once \<open>starttls\<close> has returned,
  which is the blank value when the peer supplied none.
\<close>

theorem wrap_remote_user_always_present:
  "fst (TLSPoolAdapter_wrap lib extsock w) = Inr (intsock, env) \<Longrightarrow>
   ''REMOTE_USER'' \<in> dom env \<and>
   (\<exists>td. starttls lib (wrap_hdl lib (adapter w) extsock) = Inr (intsock, td) \<and>
         env ''REMOTE_USER'' = Some (remoteid td))"
  using wrap_InrD[of lib extsock w intsock env] by auto

theorem wrap_remote_user_always_present_witness:
  "fst (TLSPoolAdapter_wrap granting_pool 5 lab_world) =
     Inr (6, [''wsgi.url_scheme'' \<mapsto> PyStr ''https'', ''HTTPS'' \<mapsto> PyStr ''on'',
              ''LOCAL_USER'' \<mapsto> PyStr ''tlspool.arpa2.lab'', ''REMOTE_USER'' \<mapsto> PyStr []])
   \<and> ''REMOTE_USER'' \<in> dom [''wsgi.url_scheme'' \<mapsto> PyStr ''https'', ''HTTPS'' \<mapsto> PyStr ''on'',
              ''LOCAL_USER'' \<mapsto> PyStr ''tlspool.arpa2.lab'', ''REMOTE_USER'' \<mapsto> PyStr []]"
proof -
  have h: "fst (TLSPoolAdapter_wrap granting_pool 5 lab_world) =
     Inr (6, [''wsgi.url_scheme'' \<mapsto> PyStr ''https'', ''HTTPS'' \<mapsto> PyStr ''on'',
              ''LOCAL_USER'' \<mapsto> PyStr ''tlspool.arpa2.lab'', ''REMOTE_USER'' \<mapsto> PyStr []])"
    using wrap_granted[OF granting_lab[of 5]] by simp
  from wrap_remote_user_always_present[OF h] h show ?thesis by blast
qed

subsection \<open>The request handed to the TLS Pool\<close>

text \<open>
  C2. Whatever the socket, the adapter and the library are, one call of \<open>wrap\<close> hands
  exactly one more request to the TLS Pool, and that request is built from the fixed
  policy: it is for the socket given, its service name is \<open>http\<close>, its flags are the
  three constants \<open>LOCALROLE_SERVER\<close>, \<open>REMOTEROLE_CLIENT\<close> and \<open>IGNORE_REMOTEID\<close>
  or-ed together, so each of the three is set in them, and its local identity is the
  \<open>server_name\<close> of the adapter.
\<close>

theorem wrap_submits_fixed_policy:
  "\<exists>hdl. submitted (snd (TLSPoolAdapter_wrap lib extsock w)) = submitted w @ [hdl]
     \<and> cryptsk hdl = extsock
     \<and> service hdl = ''http''
     \<and> flags hdl = (PIOF_STARTTLS_LOCALROLE_SERVER lib OR
                     PIOF_STARTTLS_REMOTEROLE_CLIENT lib OR
                     PIOF_STARTTLS_IGNORE_REMOTEID lib)
     \<and> flags hdl AND PIOF_STARTTLS_LOCALROLE_SERVER lib = PIOF_STARTTLS_LOCALROLE_SERVER lib
     \<and> flags hdl AND PIOF_STARTTLS_REMOTEROLE_CLIENT lib = PIOF_STARTTLS_REMOTEROLE_CLIENT lib
     \<and> flags hdl AND PIOF_STARTTLS_IGNORE_REMOTEID lib = PIOF_STARTTLS_IGNORE_REMOTEID lib
     \<and> localid (tlsdata hdl) = server_name (adapter w)"
proof -
  let ?hdl = "wrap_hdl lib (adapter w) extsock"
  have "submitted (snd (TLSPoolAdapter_wrap lib extsock w)) = submitted w @ [?hdl]"
    by (simp add: wrap_snd)
  moreover have "cryptsk ?hdl = extsock" "service ?hdl = ''http''"
    "localid (tlsdata ?hdl) = server_name (adapter w)"
    by (simp_all add: wrap_hdl_def Let_def)
  moreover have fl: "flags ?hdl = (PIOF_STARTTLS_LOCALROLE_SERVER lib OR
       PIOF_STARTTLS_REMOTEROLE_CLIENT lib OR PIOF_STARTTLS_IGNORE_REMOTEID lib)"
    by (simp add: wrap_hdl_def Let_def)
  moreover have
    "flags ?hdl AND PIOF_STARTTLS_LOCALROLE_SERVER lib = PIOF_STARTTLS_LOCALROLE_SERVER lib"
    "flags ?hdl AND PIOF_STARTTLS_REMOTEROLE_CLIENT lib = PIOF_STARTTLS_REMOTEROLE_CLIENT lib"
    "flags ?hdl AND PIOF_STARTTLS_IGNORE_REMOTEID lib = PIOF_STARTTLS_IGNORE_REMOTEID lib"
    unfolding fl by (rule or3_and)+
  ultimately show ?thesis by blast
qed

subsection \<open>Secure transport in the mapping\<close>

text \<open>
  C3. Every successful call of \<open>wrap\<close> returns a mapping that reports secure transport:
  \<open>wsgi.url_scheme\<close> is \<open>https\<close> and \<open>HTTPS\<close> is \<open>on\<close>. The two entries are
  literals of the dict, so this holds for every library, hence whatever roles the
  flag constants stand for.
\<close>

theorem wrap_reports_secure_transport:
  "fst (TLSPoolAdapter_wrap lib extsock w) = Inr (intsock, env) \<Longrightarrow>
   env ''wsgi.url_scheme'' = Some (PyStr ''https'') \<and> env ''HTTPS'' = Some (PyStr ''on'')"
  using wrap_InrD[of lib extsock w intsock env] by auto

theorem wrap_reports_secure_transport_witness:
  "fst (TLSPoolAdapter_wrap substituting_pool 7 lab_world) =
     Inr (8, [''wsgi.url_scheme'' \<mapsto> PyStr ''https'', ''HTTPS'' \<mapsto> PyStr ''on'',
              ''LOCAL_USER'' \<mapsto> PyStr ''www.arpa2.lab'',
              ''REMOTE_USER'' \<mapsto> PyStr ''alice@example.com''])
   \<and> [''wsgi.url_scheme'' \<mapsto> PyStr ''https'', ''HTTPS'' \<mapsto> PyStr ''on'',
       ''LOCAL_USER'' \<mapsto> PyStr ''www.arpa2.lab'',
       ''REMOTE_USER'' \<mapsto> PyStr ''alice@example.com''] ''wsgi.url_scheme'' = Some (PyStr ''https'')
   \<and> [''wsgi.url_scheme'' \<mapsto> PyStr ''https'', ''HTTPS'' \<mapsto> PyStr ''on'',
       ''LOCAL_USER'' \<mapsto> PyStr ''www.arpa2.lab'',
       ''REMOTE_USER'' \<mapsto> PyStr ''alice@example.com''] ''HTTPS'' = Some (PyStr ''on'')"
proof -
  have h: "fst (TLSPoolAdapter_wrap substituting_pool 7 lab_world) =
     Inr (8, [''wsgi.url_scheme'' \<mapsto> PyStr ''https'', ''HTTPS'' \<mapsto> PyStr ''on'',
              ''LOCAL_USER'' \<mapsto> PyStr ''www.arpa2.lab'',
              ''REMOTE_USER'' \<mapsto> PyStr ''alice@example.com''])"
    using wrap_granted[OF substituting_lab[of 7]] by simp
  from wrap_reports_secure_transport[OF h] h show ?thesis by blast
qed

subsection \<open>A handshake that fails\<close>

text \<open>
  C5. If \<open>starttls\<close> raises on the handle that \<open>wrap\<close> built, \<open>wrap\<close> raises the same
  exception: it returns no socket and no mapping, neither the one the TLS Pool would have
  given nor the plaintext socket it was called with.
\<close>

theorem wrap_failure_propagates:
  "starttls lib (wrap_hdl lib (adapter w) extsock) = Inl e \<Longrightarrow>
   fst (TLSPoolAdapter_wrap lib extsock w) = Inl e \<and>
   (\<nexists>intsock env. fst (TLSPoolAdapter_wrap lib extsock w) = Inr (intsock, env))"
  using wrap_raised[of lib w extsock e] by simp

theorem wrap_failure_propagates_witness:
  "starttls refusing_pool (wrap_hdl refusing_pool (adapter lab_world) 5) =
     Inl (StarttlsError ''handshake refused'')
   \<and> fst (TLSPoolAdapter_wrap refusing_pool 5 lab_world) = Inl (StarttlsError ''handshake refused'')"
  using wrap_failure_propagates[OF refusing_lab[of 5]] refusing_lab[of 5] by blast

subsection \<open>The local identity in the mapping\<close>

text \<open>
  C6, as stated, fails. The claim: after every successful handshake the mapping has the
  key \<open>LOCAL_USER\<close> with a non-empty value. \<open>wrap\<close> copies whatever \<open>localid\<close> the
  handle holds after \<open>starttls\<close> and checks nothing. In the run below the adapter's
  server name is the empty string, the TLS Pool grants the handshake and leaves the local
  identity as requested, and \<open>wrap\<close> returns socket 6 with \<open>LOCAL_USER\<close> bound to the
  empty string.
\<close>

theorem wrap_local_user_may_be_empty:
  "starttls granting_pool (wrap_hdl granting_pool (adapter nameless_world) 5) =
       Inr (6, \<lparr>localid = PyStr [], remoteid = PyStr []\<rparr>)
   \<and> \<not> truthy (PyStr [])
   \<and> (case fst (TLSPoolAdapter_wrap granting_pool 5 nameless_world) of
         Inl e \<Rightarrow> False
       | Inr (intsock, env) \<Rightarrow> intsock = 6 \<and> env ''LOCAL_USER'' = Some (PyStr []))"
proof -
  have g: "starttls granting_pool (wrap_hdl granting_pool (adapter nameless_world) 5) =
       Inr (6, \<lparr>localid = PyStr [], remoteid = PyStr []\<rparr>)"
    using granting_nameless[of 5] by simp
  moreover have "\<not> truthy (PyStr [])"
    by (simp add: truthy_def)
  ultimately show ?thesis
    using wrap_granted[OF g] by simp
qed

text \<open>
  C6, amended. After every successful call of \<open>wrap\<close> the mapping contains the key
  \<open>LOCAL_USER\<close>, and its value is the \<open>localid\<close> the handle holds once \<open>starttls\<close> has
  returned: the local identity the TLS Pool settled on, which may differ from the
  \<open>server_name\<close> requested. The value is non-empty exactly when that identity is.
\<close>

theorem wrap_local_user_read_back:
  "fst (TLSPoolAdapter_wrap lib extsock w) = Inr (intsock, env) \<Longrightarrow>
   ''LOCAL_USER'' \<in> dom env \<and>
   (\<exists>td. starttls lib (wrap_hdl lib (adapter w) extsock) = Inr (intsock, td) \<and>
         env ''LOCAL_USER'' = Some (localid td) \<and>
         (case env ''LOCAL_USER'' of None \<Rightarrow> False | Some v \<Rightarrow> truthy v) = truthy (localid td))"
  using wrap_InrD[of lib extsock w intsock env] by auto

text \<open>
  The witness is a run in which the TLS Pool substitutes the local identity: the adapter
  asked for \<open>tlspool.arpa2.lab\<close> and the mapping reports \<open>www.arpa2.lab\<close>.
\<close>

theorem wrap_local_user_read_back_witness:
  "fst (TLSPoolAdapter_wrap substituting_pool 5 lab_world) =
     Inr (6, [''wsgi.url_scheme'' \<mapsto> PyStr ''https'', ''HTTPS'' \<mapsto> PyStr ''on'',
              ''LOCAL_USER'' \<mapsto> PyStr ''www.arpa2.lab'',
              ''REMOTE_USER'' \<mapsto> PyStr ''alice@example.com''])
   \<and> server_name (adapter lab_world) = PyStr ''tlspool.arpa2.lab''
   \<and> [''wsgi.url_scheme'' \<mapsto> PyStr ''https'', ''HTTPS'' \<mapsto> PyStr ''on'',
       ''LOCAL_USER'' \<mapsto> PyStr ''www.arpa2.lab'',
       ''REMOTE_USER'' \<mapsto> PyStr ''alice@example.com''] ''LOCAL_USER'' = Some (PyStr ''www.arpa2.lab'')"
proof -
  have h: "fst (TLSPoolAdapter_wrap substituting_pool 5 lab_world) =
     Inr (6, [''wsgi.url_scheme'' \<mapsto> PyStr ''https'', ''HTTPS'' \<mapsto> PyStr ''on'',
              ''LOCAL_USER'' \<mapsto> PyStr ''www.arpa2.lab'',
              ''REMOTE_USER'' \<mapsto> PyStr ''alice@example.com''])"
    using wrap_granted[OF substituting_lab[of 5]] by simp
  have n: "server_name (adapter lab_world) = PyStr ''tlspool.arpa2.lab''"
    by (simp add: lab_world_def)
  from wrap_local_user_read_back[OF h] h n substituting_lab[of 5] show ?thesis by simp
qed

section \<open>Properties of the other methods\<close>

subsection \<open>\<open>get_environ\<close>\<close>

text \<open>
  C4. \<open>get_environ\<close> returns the mapping \<open>{'wsgi.url_scheme': 'https', 'HTTPS': 'on'}\<close>
  for every socket argument and in every state, whether or not a handshake has been
  requested before; it leaves the state as it was, and any two calls, with the same or
  with different sockets and states, return equal mappings.
\<close>

theorem get_environ_constant:
  "fst (TLSPoolAdapter_get_environ sock w) =
     [''wsgi.url_scheme'' \<mapsto> PyStr ''https'', ''HTTPS'' \<mapsto> PyStr ''on'']
   \<and> snd (TLSPoolAdapter_get_environ sock w) = w
   \<and> fst (TLSPoolAdapter_get_environ sock w) = fst (TLSPoolAdapter_get_environ sock' w')"
  by (simp add: TLSPoolAdapter_get_environ_def)

subsection \<open>\<open>bind\<close>\<close>

text \<open>
  C7. \<open>bind\<close> is a pass-through: it returns the socket it was given and leaves the state
  as it was, so it hands no request to the TLS Pool and changes neither the adapter nor
  anything attached to the socket. (The inherited \<open>bind\<close> is taken from the spec.)
\<close>

theorem bind_pass_through:
  "TLSPoolAdapter_bind sock w = (sock, w)
   \<and> submitted (snd (TLSPoolAdapter_bind sock w)) = submitted w"
  by (simp add: TLSPoolAdapter_bind_def Adapter_bind_def)

subsection \<open>\<open>__init__\<close>\<close>

text \<open>
  C8. The claim: constructing the adapter with a server name alone, or with a server name
  and further arguments, gives the same object, whose \<open>server_name\<close> is the first
  argument. The constructor never gets there. Whatever the recursion limit, the name and
  the further arguments are, it raises \<open>RecursionError\<close>; in particular it never
  returns the object that the first, shadowed definition would have made.
\<close>

theorem init_raises_RecursionError:
  "TLSPoolAdapter_init frames name mooh = Inl RecursionError
   \<and> TLSPoolAdapter_init frames name mooh \<noteq> Inr (TLSPoolAdapter_init_shadowed name)"
proof -
  have "TLSPoolAdapter_init frames name mooh = Inl RecursionError"
    by (induction frames arbitrary: mooh) simp_all
  then show ?thesis by simp
qed

subsection \<open>The adapter is never written to\<close>

lemma invoke_adapter: "adapter (invoke lib reader writer w c) = adapter w"
  by (cases c)
     (simp_all add: TLSPoolAdapter_bind_def Adapter_bind_def wrap_snd
        TLSPoolAdapter_makefile_def TLSPoolAdapter_get_environ_def Let_def)

text \<open>
  C9. No method assigns to the adapter: after any sequence of calls of \<open>bind\<close>, \<open>wrap\<close>,
  \<open>makefile\<close> and \<open>get_environ\<close>, with any arguments and whether or not the handshakes
  succeed, the adapter object is the one the sequence started with, and so is its
  \<open>server_name\<close>. (The service name and the flags are literals of \<open>wrap\<close>.)
\<close>

theorem server_name_never_mutated:
  "adapter (run lib reader writer calls w) = adapter w
   \<and> server_name (adapter (run lib reader writer calls w)) = server_name (adapter w)"
proof -
  have "adapter (foldl (invoke lib reader writer) w calls) = adapter w"
    by (induction calls arbitrary: w) (simp_all add: invoke_adapter)
  then show ?thesis by (simp add: run_def)
qed

subsection \<open>\<open>makefile\<close>\<close>

text \<open>
  C10. For every socket, mode and buffer size, \<open>makefile\<close> returns what the reader class
  makes of the socket, the mode and the buffer size if the character \<open>r\<close> occurs in the
  mode, and what the writer class makes of them otherwise.
\<close>

theorem makefile_class_by_mode:
  "(CHR ''r'' \<in> set mode \<longrightarrow>
      fst (TLSPoolAdapter_makefile reader writer sock mode bufsize w) = reader sock mode bufsize)
   \<and> (CHR ''r'' \<notin> set mode \<longrightarrow>
      fst (TLSPoolAdapter_makefile reader writer sock mode bufsize w) = writer sock mode bufsize)"
  by (simp add: TLSPoolAdapter_makefile_def)

text \<open>Mode \<open>rw\<close> gives a reader; modes \<open>w\<close> and the empty string give a writer.\<close>

theorem makefile_class_by_mode_witness:
  "CHR ''r'' \<in> set ''rw''
   \<and> fst (TLSPoolAdapter_makefile StreamReader StreamWriter (3::nat) ''rw'' 8192 lab_world) =
       StreamReader 3 ''rw'' 8192
   \<and> CHR ''r'' \<notin> set ''w''
   \<and> fst (TLSPoolAdapter_makefile StreamReader StreamWriter (3::nat) ''w'' 8192 lab_world) =
       StreamWriter 3 ''w'' 8192
   \<and> CHR ''r'' \<notin> set ''''
   \<and> fst (TLSPoolAdapter_makefile StreamReader StreamWriter (3::nat) '''' (-1) lab_world) =
       StreamWriter 3 '''' (-1)"
proof -
  have m: "CHR ''r'' \<in> set ''rw''" "CHR ''r'' \<notin> set ''w''" "CHR ''r'' \<notin> set ''''"
    by simp_all
  from m
    makefile_class_by_mode[of "''rw''" StreamReader StreamWriter "3::nat" 8192 lab_world]
    makefile_class_by_mode[of "''w''" StreamReader StreamWriter "3::nat" 8192 lab_world]
    makefile_class_by_mode[of "''''" StreamReader StreamWriter "3::nat" "-1" lab_world]
  show ?thesis by blast
qed

end
